theory Spec2Isabelle
  imports Complex_Main "HOL-Library.Word"
begin

section \<open>Python values used by app.py\<close>

text \<open>
  A value that is either \<open>None\<close> or a \<open>str\<close> is a \<open>string option\<close>.
  Python's truth test on it (\<open>if not x\<close>, \<open>if x\<close>) is false for \<open>None\<close> and for
  the empty string.
\<close>

fun truthy :: "string option \<Rightarrow> bool" where
  "truthy None = False"
| "truthy (Some s) = (s \<noteq> [])"

section \<open>Encoder: \<open>pdf_to_base64\<close>\<close>

text \<open>
  An uploaded file is its name and its bytes; \<open>read()\<close> on the fresh upload returns all
  the bytes. \<open>pdf_to_base64\<close> returns \<open>None\<close> without a file and otherwise the base64
  text of the bytes (\<open>base64.b64encode\<close>, whose ASCII output \<open>decode("utf-8")\<close> turns into
  the same characters).
\<close>

type_synonym byte = "8 word"

record uploaded_file =
  file_name :: string
  file_bytes :: "byte list"

text \<open>
  \<open>base64.b64encode\<close> is the standard base64 of RFC 4648: the alphabet \<open>A-Z\<close>, \<open>a-z\<close>,
  \<open>0-9\<close>, \<open>+\<close>, \<open>/\<close> for the values 0 to 63; three bytes give four characters, and a last
  group of one or two bytes is padded with \<open>=\<close>.
\<close>

definition b64_char :: "nat \<Rightarrow> char" where
  "b64_char n =
     (if n < 26 then char_of (65 + n)
      else if n < 52 then char_of (71 + n)
      else if n < 62 then char_of (n - 4)
      else if n = 62 then CHR ''+''
      else CHR ''/'')"

fun b64encode :: "byte list \<Rightarrow> string" where
  "b64encode [] = []"
| "b64encode [a] =
     [b64_char (unat a div 4), b64_char (unat a mod 4 * 16), CHR ''='', CHR ''='']"
| "b64encode [a, b] =
     [b64_char (unat a div 4), b64_char (unat a mod 4 * 16 + unat b div 16),
      b64_char (unat b mod 16 * 4), CHR ''='']"
| "b64encode (a # b # c # rest) =
     [b64_char (unat a div 4), b64_char (unat a mod 4 * 16 + unat b div 16),
      b64_char (unat b mod 16 * 4 + unat c div 64), b64_char (unat c mod 64)] @ b64encode rest"

definition pdf_to_base64 :: "uploaded_file option \<Rightarrow> string option" where
  "pdf_to_base64 uploaded =
     (case uploaded of
        None \<Rightarrow> None
      | Some f \<Rightarrow> Some (b64encode (file_bytes f)))"

definition b64_index :: "char \<Rightarrow> nat option" where
  "b64_index c =
     (let n = (of_char c :: nat) in
      if 65 \<le> n \<and> n \<le> 90 then Some (n - 65)
      else if 97 \<le> n \<and> n \<le> 122 then Some (n - 71)
      else if 48 \<le> n \<and> n \<le> 57 then Some (n + 4)
      else if n = 43 then Some 62
      else if n = 47 then Some 63
      else None)"

text \<open>
  The decoder the round trip is stated with: \<open>base64.b64decode\<close> on well-formed text.
  \<open>None\<close> stands for input it does not accept as it is (a character outside the alphabet,
  a length that is no multiple of four).
\<close>

fun b64decode :: "string \<Rightarrow> byte list option" where
  "b64decode [] = Some []"
| "b64decode (c0 # c1 # c2 # c3 # rest) =
     (case (b64_index c0, b64_index c1) of
        (Some i0, Some i1) \<Rightarrow>
          (if rest = [] \<and> c2 = CHR ''='' \<and> c3 = CHR ''='' then
             Some [of_nat (i0 * 4 + i1 div 16)]
           else
             (case b64_index c2 of
                None \<Rightarrow> None
              | Some i2 \<Rightarrow>
                 (if rest = [] \<and> c3 = CHR ''='' then
                    Some [of_nat (i0 * 4 + i1 div 16), of_nat (i1 mod 16 * 16 + i2 div 4)]
                  else
                    (case (b64_index c3, b64decode rest) of
                       (Some i3, Some bs) \<Rightarrow>
                          Some (of_nat (i0 * 4 + i1 div 16) # of_nat (i1 mod 16 * 16 + i2 div 4)
                                # of_nat (i2 mod 4 * 64 + i3) # bs)
                     | _ \<Rightarrow> None))))
      | _ \<Rightarrow> None)"
| "b64decode cs = None"

section \<open>Prompt Builder: \<open>generate_openrouter_prompt\<close>\<close>

text \<open>
  The message list is a list of dicts with the keys \<open>role\<close> and \<open>content\<close>. The content
  is a plain string (system message) or a list of parts (user message); a part is the dict
  \<open>{"type": "text", "text": t}\<close> or the dict
  \<open>{"type": "image_url", "image_url": {"url": u, "detail": d}}\<close>.
\<close>

datatype content_part =
    TextPart string
  | ImageUrlPart string string

datatype content = Plain string | Parts "content_part list"

record message =
  role :: string
  content :: content

definition system_prompt :: string where
  "system_prompt =
     ''You are an expert financial data analyst. Your task is to accurately '' @
     ''extract all bank transactions from the provided PDF statement image. '' @
     ''Your final output MUST be a CSV table with three columns: Date, Description, Amount. '' @
     ''The Date must be in YYYY-MM-DD format. '' @
     ''The Amount must be a number with two decimal places. Debits must be negative, Credits positive.''"

definition user_prompt :: string where
  "user_prompt =
     ''Process the attached bank statement. EXTRACT ALL individual transaction line items. '' @
     ''CRITICAL INSTRUCTION: If the statement has a column specifically labeled 'Fees', '' @
     ''DO NOT use the amounts from that dedicated column in the final 'Amount' column. '' @
     ''However, INCLUDE any fee-related transactions (e.g., 'Service Fee', 'ATM Fee') '' @
     ''that appear as a separate line item in the main debit/credit columns.''"

definition generate_openrouter_prompt :: "string option \<Rightarrow> message list" where
  "generate_openrouter_prompt file_base64_string =
     (if \<not> truthy file_base64_string then []
      else
        [\<lparr>role = ''system'', content = Plain system_prompt\<rparr>,
         \<lparr>role = ''user'', content = Parts
            [TextPart user_prompt,
             ImageUrlPart (''data:application/pdf;base64,'' @ the file_base64_string) ''high'']\<rparr>])"

text \<open>The document references of a payload: the urls of its \<open>image_url\<close> parts, in order.\<close>

fun part_refs :: "content_part \<Rightarrow> string list" where
  "part_refs (TextPart t) = []"
| "part_refs (ImageUrlPart u d) = [u]"

fun content_refs :: "content \<Rightarrow> string list" where
  "content_refs (Plain s) = []"
| "content_refs (Parts ps) = concat (map part_refs ps)"

definition document_refs :: "message list \<Rightarrow> string list" where
  "document_refs ms = concat (map (\<lambda>m. content_refs (content m)) ms)"

text \<open>The text parts of a message, in order.\<close>

fun part_texts :: "content_part \<Rightarrow> string list" where
  "part_texts (TextPart t) = [t]"
| "part_texts (ImageUrlPart u d) = []"

fun content_texts :: "content \<Rightarrow> string list" where
  "content_texts (Plain s) = [s]"
| "content_texts (Parts ps) = concat (map part_texts ps)"

section \<open>Extraction Client: \<open>call_openrouter_api\<close>\<close>

subsection \<open>Decoded JSON and Python's subscripting\<close>

text \<open>
  \<open>response.json()\<close> gives a Python value built from \<open>None\<close>, booleans, numbers,
  strings, lists and dicts with string keys. The number type plays no part in app.py, so
  it is a parameter. A dict holds every key once; \<open>JObj\<close> lists its items.
\<close>

datatype 'n json =
    JNull
  | JBool bool
  | JNum 'n
  | JStr string
  | JArr "'n json list"
  | JObj "(string \<times> 'n json) list"

text \<open>
  The exceptions the client can meet. \<open>RequestException\<close> stands for the class and its
  subclasses (\<open>ConnectionError\<close>, \<open>HTTPError\<close>, \<open>JSONDecodeError\<close> of requests) and
  carries \<open>str(e)\<close>.
\<close>

datatype py_exn = KeyError | IndexError | TypeError | RequestException string

text \<open>
  \<open>v[k]\<close> for a string key \<open>k\<close>: a dict looks the key up and raises \<open>KeyError\<close> when
  it is missing; a list or a string raises \<open>TypeError\<close> (indices must be integers); \<open>None\<close>,
  booleans and numbers are not subscriptable (\<open>TypeError\<close>).
\<close>

fun getitem_key :: "'n json \<Rightarrow> string \<Rightarrow> py_exn + 'n json" where
  "getitem_key (JObj kvs) k = (case map_of kvs k of None \<Rightarrow> Inl KeyError | Some v \<Rightarrow> Inr v)"
| "getitem_key JNull k = Inl TypeError"
| "getitem_key (JBool b) k = Inl TypeError"
| "getitem_key (JNum n) k = Inl TypeError"
| "getitem_key (JStr s) k = Inl TypeError"
| "getitem_key (JArr xs) k = Inl TypeError"

text \<open>
  \<open>v[0]\<close>: a list gives its first element and raises \<open>IndexError\<close> when it is empty; a
  string gives its first character (as a string) and raises \<open>IndexError\<close> when it is empty;
  a dict looks up the key \<open>0\<close>, which no JSON object has (\<open>KeyError\<close>); the rest is not
  subscriptable. A \<open>string\<close> holds UTF-8 bytes, so the first character is the first byte
  with its continuation bytes.
\<close>

definition is_continuation :: "char \<Rightarrow> bool" where
  "is_continuation c = (128 \<le> (of_char c :: nat) \<and> (of_char c :: nat) < 192)"

fun first_character :: "string \<Rightarrow> string" where
  "first_character [] = []"
| "first_character (c # cs) = c # takeWhile is_continuation cs"

fun getitem_0 :: "'n json \<Rightarrow> py_exn + 'n json" where
  "getitem_0 (JArr []) = Inl IndexError"
| "getitem_0 (JArr (x # xs)) = Inr x"
| "getitem_0 (JStr []) = Inl IndexError"
| "getitem_0 (JStr (c # cs)) = Inr (JStr (first_character (c # cs)))"
| "getitem_0 (JObj kvs) = Inl KeyError"
| "getitem_0 JNull = Inl TypeError"
| "getitem_0 (JBool b) = Inl TypeError"
| "getitem_0 (JNum n) = Inl TypeError"

text \<open>\<open>response_json["choices"][0]["message"]["content"]\<close>, left to right; the first
  exception ends the evaluation.\<close>

definition content_path :: "'n json \<Rightarrow> py_exn + 'n json" where
  "content_path response_json =
     (case getitem_key response_json ''choices'' of Inl e \<Rightarrow> Inl e | Inr choices \<Rightarrow>
       (case getitem_0 choices of Inl e \<Rightarrow> Inl e | Inr choice \<Rightarrow>
         (case getitem_key choice ''message'' of Inl e \<Rightarrow> Inl e | Inr msg \<Rightarrow>
            getitem_key msg ''content'')))"

subsection \<open>The request and the response\<close>

definition OPENROUTER_MODEL :: string where
  "OPENROUTER_MODEL = ''openai/gpt-4o''"

record payload =
  model :: string
  messages :: "message list"
  temperature :: real
  max_tokens :: nat
  file_input_mode :: string

record request =
  req_url :: string
  req_headers :: "(string \<times> string) list"
  req_json :: payload

definition api_request :: "string \<Rightarrow> message list \<Rightarrow> request" where
  "api_request key msgs =
     \<lparr>req_url = ''https://openrouter.ai/api/v1/chat/completions'',
      req_headers = [(''Authorization'', ''Bearer '' @ key),
                     (''Content-Type'', ''application/json'')],
      req_json = \<lparr>model = OPENROUTER_MODEL, messages = msgs, temperature = 0,
                  max_tokens = 4096, file_input_mode = ''base64''\<rparr>\<rparr>"

text \<open>
  What \<open>requests.post\<close> gives back: it raises a \<open>RequestException\<close> (no connection, timeout,
  ...) or returns a response. Of a response the client uses \<open>raise_for_status()\<close>, which
  depends on the status code, the reason phrase and the url, and \<open>json()\<close>, which returns
  the decoded body or raises requests' \<open>JSONDecodeError\<close>, a \<open>RequestException\<close>
  (\<open>Inl\<close> of its message).
\<close>

record 'n response =
  status_code :: nat
  reason :: string
  resp_url :: string
  json_result :: "string + 'n json"

datatype 'n post_outcome = PostRaises string | PostReturns "'n response"

text \<open>Decimal digits of a natural number, as \<open>str\<close> prints an int.\<close>

fun show_nat :: "nat \<Rightarrow> string" where
  "show_nat n = (if n < 10 then [char_of (48 + n)] else show_nat (n div 10) @ [char_of (48 + n mod 10)])"

declare show_nat.simps [simp del]

text \<open>
  \<open>Response.raise_for_status\<close> of requests: an \<open>HTTPError\<close> for the status codes 400 to
  599, nothing otherwise. \<open>Some\<close> is the message of the exception raised.
\<close>

definition raise_for_status :: "'n response \<Rightarrow> string option" where
  "raise_for_status r =
     (if 400 \<le> status_code r \<and> status_code r < 500 then
        Some (show_nat (status_code r) @ '' Client Error: '' @ reason r @ '' for url: '' @ resp_url r)
      else if 500 \<le> status_code r \<and> status_code r < 600 then
        Some (show_nat (status_code r) @ '' Server Error: '' @ reason r @ '' for url: '' @ resp_url r)
      else None)"

subsection \<open>The client\<close>

text \<open>
  What the client does besides returning: the Streamlit calls (\<open>st.error\<close>, \<open>st.info\<close>,
  \<open>st.json\<close>, \<open>st.spinner\<close>) and the HTTP request, in the order they happen.
\<close>

datatype 'n event =
    StError string
  | StInfo string
  | StJson "'n json"
  | StSpinner string
  | HttpPost request

text \<open>The two \<open>except\<close> clauses of the client.\<close>

definition request_failed :: "string \<Rightarrow> 'n event list" where
  "request_failed e =
     [StError (''OpenRouter API Request Failed: '' @ e),
      StInfo ''Check if your API key is valid, the model is correct, or if you have hit a rate limit.'']"

definition shape_failed :: "'n json \<Rightarrow> 'n event list" where
  "shape_failed response_json =
     [StError ''Error parsing OpenRouter response. The model may have returned an error or an unexpected format.'',
      StJson response_json]"

text \<open>
  \<open>call_openrouter_api\<close>. The module constant \<open>OPENROUTER_API_KEY\<close> (\<open>os.environ.get\<close>:
  \<open>None\<close> or a string) and the network are parameters. The result is the value returned
  (\<open>JNull\<close> is Python's \<open>None\<close>) or the exception that leaves the function (\<open>Inl\<close>),
  with the events. The \<open>try\<close> has handlers for \<open>RequestException\<close> and \<open>KeyError\<close> only:
  any other exception propagates.
\<close>

definition call_openrouter_api ::
  "string option \<Rightarrow> (request \<Rightarrow> 'n post_outcome) \<Rightarrow> message list \<Rightarrow> (py_exn + 'n json) \<times> 'n event list" where
  "call_openrouter_api OPENROUTER_API_KEY post msgs =
     (if \<not> truthy OPENROUTER_API_KEY then
        (Inr JNull,
         [StError ''OpenRouter API Key not found. Please set the OPENROUTER_API_KEY in your Streamlit secrets.''])
      else
        let req = api_request (the OPENROUTER_API_KEY) msgs;
            started = [StSpinner (''Extracting data using '' @ OPENROUTER_MODEL @ '' via OpenRouter...''),
                       HttpPost req]
        in case post req of
             PostRaises e \<Rightarrow> (Inr JNull, started @ request_failed e)
           | PostReturns response \<Rightarrow>
              (case raise_for_status response of
                 Some e \<Rightarrow> (Inr JNull, started @ request_failed e)
               | None \<Rightarrow>
                  (case json_result response of
                     Inl e \<Rightarrow> (Inr JNull, started @ request_failed e)
                   | Inr response_json \<Rightarrow>
                      (case content_path response_json of
                         Inr v \<Rightarrow> (Inr v, started)
                       | Inl (RequestException e) \<Rightarrow> (Inr JNull, started @ request_failed e)
                       | Inl KeyError \<Rightarrow> (Inr JNull, started @ shape_failed response_json)
                       | Inl IndexError \<Rightarrow> (Inl IndexError, started)
                       | Inl TypeError \<Rightarrow> (Inl TypeError, started)))))"

text \<open>The requests a run issued.\<close>

fun posts :: "'n event list \<Rightarrow> request list" where
  "posts [] = []"
| "posts (HttpPost r # es) = r # posts es"
| "posts (e # es) = posts es"

section \<open>Result Interpreter: \<open>pd.read_csv\<close> and \<open>df.to_csv\<close> on the returned text\<close>

subsection \<open>The data frame\<close>

text \<open>
  The returned text is read with \<open>pd.read_csv(BytesIO(csv_output.encode('utf-8')))\<close> and
  written back with \<open>df.to_csv(index=False)\<close>, both with pandas' defaults (comma
  separated, first line is the header, blank lines skipped, column types inferred).

  pandas is a library, so its behaviour is modelled on plain tables only: printable ASCII
  text without double quotes, tabs or carriage returns, of at most 100000 fields, whose
  header names are distinct and not empty, whose rows have as many fields as the header,
  and whose fields are integers of at most 14 digits, decimals \<open>digits.digits\<close> of at
  most 15 digits that \<open>repr\<close> prints positionally, or text that cannot be mistaken for a
  number, a boolean or a missing value. On any other text the model answers
  \<open>Unmodelled\<close> and no theorem speaks about it. The errors pandas raises on such
  tables (nothing to parse, a line with too many fields) are part of the model.

  A cell of a frame is an \<open>int64\<close>, a \<open>float64\<close> or a string. A float is represented
  by the digits \<open>repr\<close> prints for it, before and after the point (the shortest decimal
  that reads back as the same float): on the decimals above, reading is exact for that
  decimal, so \<open>1500.00\<close> is the float that prints as \<open>1500.0\<close>.
\<close>

datatype pyval = IntV int | FloatV bool string string | StrV string

record dataframe =
  df_columns :: "string list"
  df_rows :: "pyval list list"

text \<open>
  What \<open>read_csv\<close> does: it returns a frame, or raises \<open>EmptyDataError\<close> (no columns to
  parse), or raises \<open>ParserError\<close> (a line with too many fields: expected count, line
  number, count seen).
\<close>

datatype read_result =
    Parsed dataframe
  | EmptyDataError
  | ParserError nat nat nat
  | Unmodelled

subsection \<open>Lines and fields\<close>

text \<open>Splitting at a separator, as the tokenizer does: one pass, the current field in \<open>cur\<close>.\<close>

fun split_acc :: "char \<Rightarrow> string \<Rightarrow> string \<Rightarrow> string list" where
  "split_acc d cur [] = [rev cur]"
| "split_acc d cur (c # cs) =
     (if c = d then rev cur # split_acc d [] cs else split_acc d (c # cur) cs)"

definition split_on :: "char \<Rightarrow> string \<Rightarrow> string list" where
  "split_on d s = split_acc d [] s"


definition plain_char :: "char \<Rightarrow> bool" where
  "plain_char c =
     (c = CHR 0x0A \<or> (32 \<le> (of_char c :: nat) \<and> (of_char c :: nat) \<le> 126 \<and> c \<noteq> CHR 0x22))"

definition spaces_only :: "string \<Rightarrow> bool" where
  "spaces_only l = (l \<noteq> [] \<and> list_all (\<lambda>c. c = CHR '' '') l)"

text \<open>
  The records of a text: its lines that are not empty, each with its line number in the
  text (blank lines count) and split into fields.
\<close>

definition records :: "string \<Rightarrow> (nat \<times> string list) list" where
  "records txt =
     (let lines = split_on CHR 0x0A txt
      in map (\<lambda>(k, l). (k, split_on CHR '','' l))
           (filter (\<lambda>(k, l). l \<noteq> []) (zip [1 ..< Suc (length lines)] lines)))"

subsection \<open>Type inference for a field\<close>

definition is_digit :: "char \<Rightarrow> bool" where
  "is_digit c = (48 \<le> (of_char c :: nat) \<and> (of_char c :: nat) \<le> 57)"

definition is_digits :: "string \<Rightarrow> bool" where
  "is_digits s = (s \<noteq> [] \<and> list_all is_digit s)"

definition digit_val :: "char \<Rightarrow> nat" where
  "digit_val c = of_char c - 48"

definition digits_val :: "string \<Rightarrow> nat" where
  "digits_val s = foldl (\<lambda>n c. 10 * n + digit_val c) 0 s"

definition strip_sign :: "string \<Rightarrow> bool \<times> string" where
  "strip_sign s =
     (case s of
        c # cs \<Rightarrow> if c = CHR ''-'' then (True, cs) else (False, s)
      | [] \<Rightarrow> (False, s))"

text \<open>
  The digits \<open>repr\<close> prints: no leading zeros before the point and no trailing zeros
  after it, and at least one digit on either side.
\<close>

definition canon_int :: "string \<Rightarrow> string" where
  "canon_int ds =
     (if dropWhile (\<lambda>c. c = CHR ''0'') ds = [] then ''0''
      else dropWhile (\<lambda>c. c = CHR ''0'') ds)"

definition canon_frac :: "string \<Rightarrow> string" where
  "canon_frac ds = rev (canon_int (rev ds))"

text \<open>
  Fields the model does not decide: anything that, stripped of blanks and signs, looks
  like a number in some other notation (\<open>numberish\<close>) or is one of the words pandas
  reads as a missing value, a boolean or a special float (\<open>reserved\<close>, compared without
  case).
\<close>

definition to_lower :: "char \<Rightarrow> char" where
  "to_lower c =
     (if 65 \<le> (of_char c :: nat) \<and> (of_char c :: nat) \<le> 90
      then char_of ((of_char c :: nat) + 32) else c)"

definition strip_spaces :: "string \<Rightarrow> string" where
  "strip_spaces s =
     rev (dropWhile (\<lambda>c. c = CHR '' '') (rev (dropWhile (\<lambda>c. c = CHR '' '') s)))"

definition reserved_words :: "string list" where
  "reserved_words =
     [[], ''inf'', ''infinity'', ''nan'', ''true'', ''false'', ''na'', ''n/a'',
      ''null'', ''none'', ''#n/a'', ''#n/a n/a'', ''#na'', ''<na>'', ''1.#ind'', ''1.#qnan'']"

definition is_sign :: "char \<Rightarrow> bool" where
  "is_sign c = (c = CHR ''+'' \<or> c = CHR ''-'')"

definition reserved :: "string \<Rightarrow> bool" where
  "reserved s = (map to_lower (dropWhile is_sign (strip_spaces s)) \<in> set reserved_words)"

definition numberish :: "string \<Rightarrow> bool" where
  "numberish s =
     (let t = dropWhile is_sign (strip_spaces s);
          r = dropWhile (\<lambda>c. is_digit c \<or> c = CHR ''.'') t
      in r = [] \<or> ((hd r = CHR ''e'' \<or> hd r = CHR ''E'')
                    \<and> list_all is_digit (dropWhile is_sign (tl r))))"

text \<open>
  The class of a field: an integer \<open>-?digits\<close> of at most 14 digits; a decimal
  \<open>-?digits.digits\<close> of at most 15 digits, given by its printed digits, that is neither
  minus zero nor below \<open>0.0001\<close> (which \<open>repr\<close> prints with an exponent); text; or
  undecided.
\<close>

datatype cell_class = CInt int | CDec bool string string | CText | CUnknown

definition classify :: "string \<Rightarrow> cell_class" where
  "classify s =
     (let (neg, t) = strip_sign s;
          ip = takeWhile (\<lambda>c. c \<noteq> CHR ''.'') t;
          fp = drop (Suc (length ip)) t
      in if is_digits t \<and> length t \<le> 14 \<and> \<not> (neg \<and> digits_val t = 0) then
           CInt (if neg then - int (digits_val t) else int (digits_val t))
         else if t = ip @ CHR ''.'' # fp \<and> is_digits ip \<and> is_digits fp
                 \<and> length ip + length fp \<le> 15
                 \<and> \<not> (neg \<and> canon_int ip = ''0'' \<and> canon_frac fp = ''0'')
                 \<and> \<not> (canon_int ip = ''0'' \<and> canon_frac fp \<noteq> ''0''
                        \<and> list_all (\<lambda>c. c = CHR ''0'') (take 4 (canon_frac fp))) then
           CDec neg (canon_int ip) (canon_frac fp)
         else if numberish s \<or> reserved s then CUnknown
         else CText)"

subsection \<open>Type inference for a column\<close>

text \<open>
  A column whose fields are all integers is \<open>int64\<close>; one whose fields are all numbers is
  \<open>float64\<close>; any other column is \<open>object\<close> and keeps every field as the string it was.
\<close>

datatype kind = KInt | KFloat | KStr

fun is_CInt :: "cell_class \<Rightarrow> bool" where
  "is_CInt (CInt i) = True"
| "is_CInt c = False"

fun is_number :: "cell_class \<Rightarrow> bool" where
  "is_number (CInt i) = True"
| "is_number (CDec neg ip fp) = True"
| "is_number c = False"

definition column_kind :: "cell_class list \<Rightarrow> kind" where
  "column_kind cs =
     (if list_all is_CInt cs then KInt
      else if list_all is_number cs then KFloat
      else KStr)"

fun convert :: "kind \<Rightarrow> string \<Rightarrow> pyval" where
  "convert KStr s = StrV s"
| "convert KInt s = (case classify s of CInt i \<Rightarrow> IntV i | _ \<Rightarrow> StrV s)"
| "convert KFloat s =
     (case classify s of
        CInt i \<Rightarrow> FloatV (i < 0) (show_nat (nat \<bar>i\<bar>)) ''0''
      | CDec neg ip fp \<Rightarrow> FloatV neg ip fp
      | _ \<Rightarrow> StrV s)"

subsection \<open>\<open>read_csv\<close>\<close>

definition frame_of :: "string list \<Rightarrow> string list list \<Rightarrow> read_result" where
  "frame_of names recs =
     (let n = length names;
          kinds = map (\<lambda>j. column_kind (map (\<lambda>r. classify (r ! j)) recs)) [0 ..< n]
      in if \<not> distinct names \<or> [] \<in> set names then Unmodelled
         else if list_ex (\<lambda>r. length r < n) recs then Unmodelled
         else if list_ex (\<lambda>r. list_ex (\<lambda>c. classify c = CUnknown) r) recs then Unmodelled
         else Parsed \<lparr>df_columns = names,
                      df_rows = map (\<lambda>r. map (\<lambda>j. convert (kinds ! j) (r ! j)) [0 ..< n]) recs\<rparr>)"

text \<open>
  The first record is the header. A first data line longer than the header makes pandas
  take the extra leading fields as the index (not modelled); a later line longer than the
  header is the tokenizer's error "Expected n fields in line k, saw m". pandas infers the
  types of a very large table chunk by chunk (\<open>low_memory\<close>); the model stops at 100000
  fields, far below the size of a chunk, where a column is inferred as a whole.
\<close>

definition read_csv :: "string \<Rightarrow> read_result" where
  "read_csv txt =
     (if \<not> list_all plain_char txt \<or> list_ex spaces_only (split_on CHR 0x0A txt) then Unmodelled
      else
        (case records txt of
           [] \<Rightarrow> EmptyDataError
         | (k0, names) # rest \<Rightarrow>
             (if rest \<noteq> [] \<and> length names < length (snd (hd rest)) then Unmodelled
              else
                (case find (\<lambda>(k, r). length names < length r) rest of
                   Some (k, r) \<Rightarrow> ParserError (length names) k (length r)
                 | None \<Rightarrow>
                     if 100000 < length names * length rest then Unmodelled
                     else frame_of names (map snd rest)))))"



subsection \<open>\<open>to_csv\<close>\<close>






text \<open>The number a cell stands for; a string is not a number.\<close>

fun number_value :: "pyval \<Rightarrow> real option" where
  "number_value (IntV i) = Some (of_int i)"
| "number_value (FloatV neg ip fp) =
     Some ((if neg then - 1 else 1)
           * (of_nat (digits_val ip) + of_nat (digits_val fp) / 10 ^ length fp))"
| "number_value (StrV s) = None"

subsection \<open>The display block of the page\<close>






section \<open>Properties of the Encoder\<close>

lemma b64_index_char: "k < 64 \<Longrightarrow> b64_index (b64_char k) = Some k"
  by (auto simp add: b64_index_def b64_char_def Let_def)

lemma b64_char_not_pad: "k < 64 \<Longrightarrow> b64_char k \<noteq> CHR ''=''"
proof
  assume k: "k < 64" and "b64_char k = CHR ''=''"
  then have "b64_index (b64_char k) = None" by (simp add: b64_index_def)
  with b64_index_char [OF k] show False by simp
qed


lemma byte_bound: "unat (a :: byte) < 256"
  using unsigned_less [of a, where 'a = nat] by simp

lemma decode_group:
  assumes "i0 < 64" "i1 < 64" "i2 < 64" "i3 < 64"
  shows "b64decode (b64_char i0 # b64_char i1 # b64_char i2 # b64_char i3 # rest) =
     (case b64decode rest of
        Some bs \<Rightarrow> Some (of_nat (i0 * 4 + i1 div 16) # of_nat (i1 mod 16 * 16 + i2 div 4)
                       # of_nat (i2 mod 4 * 64 + i3) # bs)
      | None \<Rightarrow> None)"
  using assms by (simp add: b64_index_char b64_char_not_pad split: option.split)

lemma decode_pad1:
  assumes "i0 < 64" "i1 < 64" "i2 < 64"
  shows "b64decode [b64_char i0, b64_char i1, b64_char i2, CHR ''=''] =
     Some [of_nat (i0 * 4 + i1 div 16), of_nat (i1 mod 16 * 16 + i2 div 4)]"
  using assms by (simp add: b64_index_char b64_char_not_pad)

lemma decode_pad2:
  assumes "i0 < 64" "i1 < 64"
  shows "b64decode [b64_char i0, b64_char i1, CHR ''='', CHR ''=''] =
     Some [of_nat (i0 * 4 + i1 div 16)]"
  using assms by (simp add: b64_index_char)

lemma regroup1:
  assumes "y < 256"
  shows "(x::nat) div 4 * 4 + (x mod 4 * 16 + y div 16) div 16 = x"
proof -
  have "y div 16 < 16" using assms by simp
  then have "(x mod 4 * 16 + y div 16) div 16 = x mod 4" by simp
  then show ?thesis by simp
qed

lemma regroup2:
  assumes "y < 256" and "z < 256"
  shows "((x::nat) mod 4 * 16 + y div 16) mod 16 * 16 + (y mod 16 * 4 + z div 64) div 4 = y"
proof -
  have "y div 16 < 16" using assms by simp
  then have a: "(x mod 4 * 16 + y div 16) mod 16 = y div 16" by simp
  have "z div 64 < 4" using assms by simp
  then have b: "(y mod 16 * 4 + z div 64) div 4 = y mod 16" by simp
  show ?thesis unfolding a b by simp
qed

lemma regroup3:
  assumes "z < 256"
  shows "((y::nat) mod 16 * 4 + z div 64) mod 4 * 64 + z mod 64 = z"
proof -
  have "z div 64 < 4" using assms by simp
  then have a: "(y mod 16 * 4 + z div 64) mod 4 = z div 64" by simp
  show ?thesis unfolding a by simp
qed


lemma b64_roundtrip: "b64decode (b64encode bs) = Some bs"
proof (induction bs rule: b64encode.induct)
  case 1
  show ?case by simp
next
  case (2 a)
  have a: "unat a < 256" by (rule byte_bound)
  have "b64decode (b64encode [a]) = Some [of_nat (unat a div 4 * 4 + (unat a mod 4 * 16) div 16)]"
    using a by (simp add: decode_pad2 del: b64decode.simps)
  also have "unat a div 4 * 4 + (unat a mod 4 * 16) div 16 = unat a"
    using regroup1 [of 0 "unat a"] by simp
  finally show ?case by simp
next
  case (3 a b)
  have a: "unat a < 256" and b: "unat b < 256" by (rule byte_bound)+
  have "b64decode (b64encode [a, b]) =
      Some [of_nat (unat a div 4 * 4 + (unat a mod 4 * 16 + unat b div 16) div 16),
            of_nat ((unat a mod 4 * 16 + unat b div 16) mod 16 * 16 + (unat b mod 16 * 4) div 4)]"
    using a b by (simp add: decode_pad1 del: b64decode.simps)
  also have "unat a div 4 * 4 + (unat a mod 4 * 16 + unat b div 16) div 16 = unat a"
    using b by (rule regroup1)
  also have "(unat a mod 4 * 16 + unat b div 16) mod 16 * 16 + (unat b mod 16 * 4) div 4 = unat b"
    using regroup2 [of "unat b" 0 "unat a"] b by simp
  finally show ?case by simp
next
  case (4 a b c rest)
  have a: "unat a < 256" and b: "unat b < 256" and c: "unat c < 256" by (rule byte_bound)+
  have "b64decode (b64encode (a # b # c # rest)) =
      Some (of_nat (unat a div 4 * 4 + (unat a mod 4 * 16 + unat b div 16) div 16)
          # of_nat ((unat a mod 4 * 16 + unat b div 16) mod 16 * 16 + (unat b mod 16 * 4 + unat c div 64) div 4)
          # of_nat ((unat b mod 16 * 4 + unat c div 64) mod 4 * 64 + unat c mod 64) # rest)"
    using a b c 4 by (simp add: decode_group del: b64decode.simps)
  also have "unat a div 4 * 4 + (unat a mod 4 * 16 + unat b div 16) div 16 = unat a"
    using b by (rule regroup1)
  also have "(unat a mod 4 * 16 + unat b div 16) mod 16 * 16 + (unat b mod 16 * 4 + unat c div 64) div 4 = unat b"
    using b c by (rule regroup2)
  also have "(unat b mod 16 * 4 + unat c div 64) mod 4 * 64 + unat c mod 64 = unat c"
    using c by (rule regroup3)
  finally show ?case by simp
qed

text \<open>
  C2. For every uploaded file with a non-empty byte sequence, the Encoder returns a text,
  and decoding that text gives back exactly the bytes of the file.
\<close>

theorem encode_decode_roundtrip:
  assumes "file_bytes f \<noteq> []"
  shows "\<exists>s. pdf_to_base64 (Some f) = Some s \<and> b64decode s = Some (file_bytes f)"
  by (simp add: pdf_to_base64_def b64_roundtrip)

theorem encode_decode_roundtrip_witness:
  "pdf_to_base64 (Some \<lparr>file_name = ''statement.pdf'', file_bytes = [37, 80, 68, 70, 45]\<rparr>)
     = Some ''JVBERi0=''
   \<and> b64decode ''JVBERi0='' = Some [37, 80, 68, 70, 45]"
proof -
  have enc: "pdf_to_base64 (Some \<lparr>file_name = ''statement.pdf'', file_bytes = [37, 80, 68, 70, 45]\<rparr>)
     = Some ''JVBERi0=''"
    by code_simp
  have "file_bytes \<lparr>file_name = ''statement.pdf'', file_bytes = [37, 80, 68, 70, 45]\<rparr> \<noteq> []"
    by simp
  from encode_decode_roundtrip [OF this] enc show ?thesis
    by simp
qed

section \<open>Properties of the Prompt Builder\<close>

text \<open>
  C1. For every non-empty encoded document the payload's second block is the user block,
  and its only text part is, character for character, the fixed instruction with the
  asymmetric Fees rule: extract all individual line items, do not use the amounts of a
  column labeled 'Fees', but include fee transactions that are line items of the main
  debit/credit columns.
\<close>

theorem user_block_has_fees_rule_verbatim:
  assumes "file_base64_string = Some s" and "s \<noteq> []"
  shows "role (generate_openrouter_prompt file_base64_string ! 1) = ''user''
    \<and> content_texts (content (generate_openrouter_prompt file_base64_string ! 1)) =
       [''Process the attached bank statement. EXTRACT ALL individual transaction line items. CRITICAL INSTRUCTION: If the statement has a column specifically labeled 'Fees', DO NOT use the amounts from that dedicated column in the final 'Amount' column. However, INCLUDE any fee-related transactions (e.g., 'Service Fee', 'ATM Fee') that appear as a separate line item in the main debit/credit columns.'']"
  using assms by (simp add: generate_openrouter_prompt_def user_prompt_def)

theorem user_block_has_fees_rule_verbatim_witness:
  "role (generate_openrouter_prompt (Some ''JVBERi0='') ! 1) = ''user''
    \<and> content_texts (content (generate_openrouter_prompt (Some ''JVBERi0='') ! 1)) =
       [''Process the attached bank statement. EXTRACT ALL individual transaction line items. CRITICAL INSTRUCTION: If the statement has a column specifically labeled 'Fees', DO NOT use the amounts from that dedicated column in the final 'Amount' column. However, INCLUDE any fee-related transactions (e.g., 'Service Fee', 'ATM Fee') that appear as a separate line item in the main debit/credit columns.'']"
  using user_block_has_fees_rule_verbatim [of "Some ''JVBERi0=''" "''JVBERi0=''"] by simp

text \<open>
  C3. Without a document (\<open>None\<close>) the builder returns the empty payload. For every
  non-empty encoded document it returns exactly two blocks, the system block first and
  the user block second, and the payload holds exactly one document reference: the data
  URL of the encoded document.
\<close>

theorem prompt_shape:
  "generate_openrouter_prompt None = []
   \<and> (s \<noteq> [] \<longrightarrow>
        length (generate_openrouter_prompt (Some s)) = 2
      \<and> map role (generate_openrouter_prompt (Some s)) = [''system'', ''user'']
      \<and> document_refs (generate_openrouter_prompt (Some s)) = [''data:application/pdf;base64,'' @ s])"
  by (simp add: generate_openrouter_prompt_def document_refs_def)

theorem prompt_shape_witness:
  "generate_openrouter_prompt None = []
   \<and> length (generate_openrouter_prompt (Some ''JVBERi0='')) = 2
   \<and> map role (generate_openrouter_prompt (Some ''JVBERi0='')) = [''system'', ''user'']
   \<and> document_refs (generate_openrouter_prompt (Some ''JVBERi0='')) =
       [''data:application/pdf;base64,JVBERi0='']"
  using prompt_shape [of "''JVBERi0=''"] by simp

section \<open>Properties of the Extraction Client\<close>



text \<open>
  C6. With a credential configured, for every 2xx response whose decoded body is an
  object with a list under \<open>choices\<close>, whose first element is an object with an object
  under \<open>message\<close>, which has the string \<open>s\<close> under \<open>content\<close>: the client returns exactly
  \<open>s\<close>, issues exactly one request and surfaces no error.
\<close>

theorem success_returns_content_unmodified:
  assumes "truthy key"
    and "post (api_request (the key) msgs) = PostReturns response"
    and "200 \<le> status_code response" and "status_code response < 300"
    and "json_result response = Inr (JObj body)"
    and "map_of body ''choices'' = Some (JArr (JObj choice # others))"
    and "map_of choice ''message'' = Some (JObj msg)"
    and "map_of msg ''content'' = Some (JStr s)"
  shows "fst (call_openrouter_api key post msgs) = Inr (JStr s)
       \<and> posts (snd (call_openrouter_api key post msgs)) = [api_request (the key) msgs]"
  using assms
  by (simp add: call_openrouter_api_def raise_for_status_def content_path_def Let_def)

theorem success_returns_content_unmodified_witness:
  "fst (call_openrouter_api (Some ''sk-or-v1-0'')
          (\<lambda>r. PostReturns \<lparr>status_code = 200, reason = ''OK'', resp_url = req_url r,
             json_result = Inr (JObj [(''id'', JStr ''gen-1''),
               (''choices'', JArr [JObj [(''index'', JNum (0::int)),
                  (''message'', JObj [(''role'', JStr ''assistant''),
                     (''content'', JStr '' Date,Description,Amount\<newline>2024-02-01,ATM Fee,-3.00\<newline> '')])]])])\<rparr>)
          (generate_openrouter_prompt (Some ''JVBERi0='')))
     = Inr (JStr '' Date,Description,Amount\<newline>2024-02-01,ATM Fee,-3.00\<newline> '')"
  using success_returns_content_unmodified
    [of "Some ''sk-or-v1-0''"
        "\<lambda>r. PostReturns \<lparr>status_code = 200, reason = ''OK'', resp_url = req_url r,
             json_result = Inr (JObj [(''id'', JStr ''gen-1''),
               (''choices'', JArr [JObj [(''index'', JNum (0::int)),
                  (''message'', JObj [(''role'', JStr ''assistant''),
                     (''content'', JStr '' Date,Description,Amount\<newline>2024-02-01,ATM Fee,-3.00\<newline> '')])]])])\<rparr>"
        "generate_openrouter_prompt (Some ''JVBERi0='')"
        "\<lparr>status_code = 200, reason = ''OK'',
          resp_url = req_url (api_request ''sk-or-v1-0'' (generate_openrouter_prompt (Some ''JVBERi0=''))),
          json_result = Inr (JObj [(''id'', JStr ''gen-1''),
               (''choices'', JArr [JObj [(''index'', JNum (0::int)),
                  (''message'', JObj [(''role'', JStr ''assistant''),
                     (''content'', JStr '' Date,Description,Amount\<newline>2024-02-01,ATM Fee,-3.00\<newline> '')])]])])\<rparr>"
        "[(''id'', JStr ''gen-1''),
               (''choices'', JArr [JObj [(''index'', JNum (0::int)),
                  (''message'', JObj [(''role'', JStr ''assistant''),
                     (''content'', JStr '' Date,Description,Amount\<newline>2024-02-01,ATM Fee,-3.00\<newline> '')])]])]"
        "[(''index'', JNum (0::int)),
                  (''message'', JObj [(''role'', JStr ''assistant''),
                     (''content'', JStr '' Date,Description,Amount\<newline>2024-02-01,ATM Fee,-3.00\<newline> '')])]"
        "[]"
        "[(''role'', JStr ''assistant''),
                     (''content'', JStr '' Date,Description,Amount\<newline>2024-02-01,ATM Fee,-3.00\<newline> '')]"
        "'' Date,Description,Amount\<newline>2024-02-01,ATM Fee,-3.00\<newline> ''"]
  by simp

text \<open>
  C5, as stated, fails: a 404 response and a 200 response whose body is the empty object
  make the client return the same value \<open>None\<close>, not two distinct failure values; and a
  response outside 2xx that \<open>raise_for_status\<close> accepts (here 304) is no failure at all when
  its body has the content field.
\<close>

theorem failure_values_not_distinct:
  "fst (call_openrouter_api (Some ''sk-or-v1-0'')
          (\<lambda>r. PostReturns \<lparr>status_code = 404, reason = ''Not Found'', resp_url = req_url r,
                  json_result = Inr (JObj [] :: int json)\<rparr>) [])
   = fst (call_openrouter_api (Some ''sk-or-v1-0'')
          (\<lambda>r. PostReturns \<lparr>status_code = 200, reason = ''OK'', resp_url = req_url r,
                  json_result = Inr (JObj [] :: int json)\<rparr>) [])
   \<and> fst (call_openrouter_api (Some ''sk-or-v1-0'')
          (\<lambda>r. PostReturns \<lparr>status_code = 404, reason = ''Not Found'', resp_url = req_url r,
                  json_result = Inr (JObj [] :: int json)\<rparr>) []) = Inr JNull
   \<and> fst (call_openrouter_api (Some ''sk-or-v1-0'')
          (\<lambda>r. PostReturns \<lparr>status_code = 304, reason = ''Not Modified'', resp_url = req_url r,
                  json_result = Inr (JObj [(''choices'',
                     JArr [JObj [(''message'', JObj [(''content'', JStr ''Date,Description,Amount'')])]])]
                       :: int json)\<rparr>) [])
     = Inr (JStr ''Date,Description,Amount'')"
  by (simp add: call_openrouter_api_def raise_for_status_def content_path_def Let_def)

text \<open>
  C5, amended. With a credential configured, the client issues one request and then:
  when \<open>requests.post\<close> raises, or the response has an error status (400 to 599), or the
  body of an accepted response is not JSON, it returns \<open>None\<close> after surfacing
  "OpenRouter API Request Failed:" with the cause (for an error status the cause starts
  with the status code and names the reason and the url); when the body of a 2xx response
  is JSON and the lookup of \<open>choices\<close>, \<open>0\<close>, \<open>message\<close>, \<open>content\<close> raises \<open>KeyError\<close>,
  it returns \<open>None\<close> after surfacing "Error parsing OpenRouter response ..." and the raw
  body. The value returned is \<open>None\<close> in all these cases; what tells the failures apart
  is the surfaced message.
\<close>

theorem failures_return_None_and_surface_cause:
  fixes key :: "string option" and msgs :: "message list"
  assumes "truthy key"
  defines "started \<equiv>
      [StSpinner ''Extracting data using openai/gpt-4o via OpenRouter...'',
       HttpPost (api_request (the key) msgs)]"
  shows "(post (api_request (the key) msgs) = PostRaises e \<longrightarrow>
            call_openrouter_api key post msgs = (Inr JNull, started @ request_failed e))
       \<and> (post (api_request (the key) msgs) = PostReturns response
            \<and> 400 \<le> status_code response \<and> status_code response < 600 \<longrightarrow>
            (\<exists>kind. call_openrouter_api key post msgs =
               (Inr JNull, started @ request_failed
                  (show_nat (status_code response) @ kind @ reason response
                     @ '' for url: '' @ resp_url response))))
       \<and> (post (api_request (the key) msgs) = PostReturns response
            \<and> 200 \<le> status_code response \<and> status_code response < 300
            \<and> json_result response = Inl e \<longrightarrow>
            call_openrouter_api key post msgs = (Inr JNull, started @ request_failed e))
       \<and> (post (api_request (the key) msgs) = PostReturns response
            \<and> 200 \<le> status_code response \<and> status_code response < 300
            \<and> json_result response = Inr body \<and> content_path body = Inl KeyError \<longrightarrow>
            call_openrouter_api key post msgs = (Inr JNull, started @ shape_failed body))"
proof -
  have err: "400 \<le> status_code response \<and> status_code response < 600 \<Longrightarrow>
      \<exists>kind. raise_for_status response =
        Some (show_nat (status_code response) @ kind @ reason response
                @ '' for url: '' @ resp_url response)"
  proof (cases "status_code response < 500")
    case True
    assume "400 \<le> status_code response \<and> status_code response < 600"
    with True have "raise_for_status response =
        Some (show_nat (status_code response) @ '' Client Error: '' @ reason response
                @ '' for url: '' @ resp_url response)"
      by (simp add: raise_for_status_def)
    then show ?thesis by blast
  next
    case False
    assume "400 \<le> status_code response \<and> status_code response < 600"
    with False have "raise_for_status response =
        Some (show_nat (status_code response) @ '' Server Error: '' @ reason response
                @ '' for url: '' @ resp_url response)"
      by (simp add: raise_for_status_def)
    then show ?thesis by blast
  qed
  have ok: "200 \<le> status_code response \<and> status_code response < 300 \<Longrightarrow>
      raise_for_status response = None"
    by (simp add: raise_for_status_def)
  have c1: "post (api_request (the key) msgs) = PostRaises e \<longrightarrow>
            call_openrouter_api key post msgs = (Inr JNull, started @ request_failed e)"
    using assms(1) by (simp add: call_openrouter_api_def started_def OPENROUTER_MODEL_def Let_def)
  have c2: "post (api_request (the key) msgs) = PostReturns response
            \<and> 400 \<le> status_code response \<and> status_code response < 600 \<longrightarrow>
            (\<exists>kind. call_openrouter_api key post msgs =
               (Inr JNull, started @ request_failed
                  (show_nat (status_code response) @ kind @ reason response
                     @ '' for url: '' @ resp_url response)))"
  proof (intro impI)
    assume h: "post (api_request (the key) msgs) = PostReturns response
            \<and> 400 \<le> status_code response \<and> status_code response < 600"
    then obtain kind where k: "raise_for_status response =
        Some (show_nat (status_code response) @ kind @ reason response
                @ '' for url: '' @ resp_url response)"
      using err by blast
    have "call_openrouter_api key post msgs =
               (Inr JNull, started @ request_failed
                  (show_nat (status_code response) @ kind @ reason response
                     @ '' for url: '' @ resp_url response))"
      using assms(1) h k
      by (simp add: call_openrouter_api_def started_def OPENROUTER_MODEL_def Let_def)
    then show "\<exists>kind. call_openrouter_api key post msgs =
               (Inr JNull, started @ request_failed
                  (show_nat (status_code response) @ kind @ reason response
                     @ '' for url: '' @ resp_url response))"
      by blast
  qed
  have c3: "post (api_request (the key) msgs) = PostReturns response
            \<and> 200 \<le> status_code response \<and> status_code response < 300
            \<and> json_result response = Inl e \<longrightarrow>
            call_openrouter_api key post msgs = (Inr JNull, started @ request_failed e)"
    using assms(1) ok
    by (simp add: call_openrouter_api_def started_def OPENROUTER_MODEL_def Let_def)
  have c4: "post (api_request (the key) msgs) = PostReturns response
            \<and> 200 \<le> status_code response \<and> status_code response < 300
            \<and> json_result response = Inr body \<and> content_path body = Inl KeyError \<longrightarrow>
            call_openrouter_api key post msgs = (Inr JNull, started @ shape_failed body)"
    using assms(1) ok
    by (simp add: call_openrouter_api_def started_def OPENROUTER_MODEL_def Let_def)
  from c1 c2 c3 c4 show ?thesis by blast
qed

theorem failures_return_None_and_surface_cause_witness:
  "call_openrouter_api (Some ''sk-or-v1-0'') (\<lambda>r. PostRaises ''Connection refused'') []
     = (Inr (JNull :: int json),
        [StSpinner ''Extracting data using openai/gpt-4o via OpenRouter...'',
         HttpPost (api_request ''sk-or-v1-0'' []),
         StError ''OpenRouter API Request Failed: Connection refused'',
         StInfo ''Check if your API key is valid, the model is correct, or if you have hit a rate limit.''])
   \<and> (\<exists>kind. call_openrouter_api (Some ''sk-or-v1-0'')
          (\<lambda>r. PostReturns \<lparr>status_code = 404, reason = ''Not Found'', resp_url = ''https://openrouter.ai/'',
                  json_result = Inr (JObj [])\<rparr>) []
     = (Inr (JNull :: int json),
        [StSpinner ''Extracting data using openai/gpt-4o via OpenRouter...'',
         HttpPost (api_request ''sk-or-v1-0'' []),
         StError (''OpenRouter API Request Failed: '' @ show_nat 404 @ kind @ ''Not Found for url: https://openrouter.ai/''),
         StInfo ''Check if your API key is valid, the model is correct, or if you have hit a rate limit.'']))
   \<and> call_openrouter_api (Some ''sk-or-v1-0'')
          (\<lambda>r. PostReturns \<lparr>status_code = 200, reason = ''OK'', resp_url = ''https://openrouter.ai/'',
                  json_result = Inl ''Expecting value: line 1 column 1 (char 0)''\<rparr>) []
     = (Inr (JNull :: int json),
        [StSpinner ''Extracting data using openai/gpt-4o via OpenRouter...'',
         HttpPost (api_request ''sk-or-v1-0'' []),
         StError ''OpenRouter API Request Failed: Expecting value: line 1 column 1 (char 0)'',
         StInfo ''Check if your API key is valid, the model is correct, or if you have hit a rate limit.''])
   \<and> call_openrouter_api (Some ''sk-or-v1-0'')
          (\<lambda>r. PostReturns \<lparr>status_code = 200, reason = ''OK'', resp_url = ''https://openrouter.ai/'',
                  json_result = Inr (JObj [(''error'', JObj [(''code'', JNum 429)])])\<rparr>) []
     = (Inr (JNull :: int json),
        [StSpinner ''Extracting data using openai/gpt-4o via OpenRouter...'',
         HttpPost (api_request ''sk-or-v1-0'' []),
         StError ''Error parsing OpenRouter response. The model may have returned an error or an unexpected format.'',
         StJson (JObj [(''error'', JObj [(''code'', JNum 429)])])])"
  using
    failures_return_None_and_surface_cause
      [where key = "Some ''sk-or-v1-0''" and msgs = "[]"
         and post = "\<lambda>r. PostRaises ''Connection refused'' :: int post_outcome"
         and e = "''Connection refused''"]
    failures_return_None_and_surface_cause
      [where key = "Some ''sk-or-v1-0''" and msgs = "[]"
         and post = "\<lambda>r. PostReturns \<lparr>status_code = 404, reason = ''Not Found'',
                  resp_url = ''https://openrouter.ai/'', json_result = Inr (JObj [] :: int json)\<rparr>"
         and response = "\<lparr>status_code = 404, reason = ''Not Found'',
                  resp_url = ''https://openrouter.ai/'', json_result = Inr (JObj [] :: int json)\<rparr>"]
    failures_return_None_and_surface_cause
      [where key = "Some ''sk-or-v1-0''" and msgs = "[]"
         and post = "\<lambda>r. PostReturns \<lparr>status_code = 200, reason = ''OK'',
                  resp_url = ''https://openrouter.ai/'',
                  json_result = Inl ''Expecting value: line 1 column 1 (char 0)'' :: string + int json\<rparr>"
         and response = "\<lparr>status_code = 200, reason = ''OK'',
                  resp_url = ''https://openrouter.ai/'',
                  json_result = Inl ''Expecting value: line 1 column 1 (char 0)'' :: string + int json\<rparr>"
         and e = "''Expecting value: line 1 column 1 (char 0)''"]
    failures_return_None_and_surface_cause
      [where key = "Some ''sk-or-v1-0''" and msgs = "[]"
         and post = "\<lambda>r. PostReturns \<lparr>status_code = 200, reason = ''OK'',
                  resp_url = ''https://openrouter.ai/'',
                  json_result = Inr (JObj [(''error'', JObj [(''code'', JNum (429::int))])])\<rparr>"
         and response = "\<lparr>status_code = 200, reason = ''OK'',
                  resp_url = ''https://openrouter.ai/'',
                  json_result = Inr (JObj [(''error'', JObj [(''code'', JNum (429::int))])])\<rparr>"
         and body = "JObj [(''error'', JObj [(''code'', JNum (429::int))])]"]
  by (simp add: request_failed_def shape_failed_def content_path_def)

text \<open>
  C10 fails on a success body whose \<open>choices\<close> list is empty: \<open>response_json["choices"][0]\<close>
  raises \<open>IndexError\<close>, for which the \<open>try\<close> has no handler, so the exception leaves the
  client instead of \<open>None\<close> being returned.
\<close>

theorem empty_choices_raises_past_client:
  "fst (call_openrouter_api (Some ''sk-or-v1-0'')
          (\<lambda>r. PostReturns \<lparr>status_code = 200, reason = ''OK'', resp_url = req_url r,
                  json_result = Inr (JObj [(''choices'', JArr [])] :: int json)\<rparr>)
          (generate_openrouter_prompt (Some ''JVBERi0='')))
     = Inl IndexError"
  by (simp add: call_openrouter_api_def raise_for_status_def content_path_def Let_def)

section \<open>Properties of the Result Interpreter\<close>

subsection \<open>Splitting and joining\<close>













subsection \<open>Printing and reading digits\<close>












subsection \<open>Classes of fields\<close>











lemma digits_no_minus: "is_digits x \<Longrightarrow> hd x \<noteq> CHR ''-''"
  by (cases x) (auto simp: is_digits_def is_digit_def)








subsection \<open>A written number is read back as the same number\<close>









subsection \<open>Columns and frames are read back with the same types\<close>



subsection \<open>What is written needs no quoting\<close>









subsection \<open>Written lines are not blank\<close>








subsection \<open>Reading and writing a text\<close>






subsection \<open>Writing a frame and reading it back\<close>


subsection \<open>The tables of the specification\<close>


lemma classify_examples:
  "classify ''2024-01-05'' = CText"
  "classify ''2024-01-06'' = CText"
  "classify ''2024-02-01'' = CText"
  "classify ''2024-02-02'' = CText"
  "classify ''Grocery Store'' = CText"
  "classify ''Payroll Deposit'' = CText"
  "classify ''ATM Fee'' = CText"
  by (simp_all add: classify_def strip_sign_def is_digits_def is_digit_def numberish_def reserved_def
      reserved_words_def strip_spaces_def is_sign_def to_lower_def Let_def)

lemma classify_amounts:
  "classify ''-54.32'' = CDec True ''54'' ''32''"
  "classify ''1500.00'' = CDec False ''1500'' ''0''"
  "classify ''-3.00'' = CDec True ''3'' ''0''"
  by (simp_all add: classify_def strip_sign_def is_digits_def is_digit_def canon_int_def
      canon_frac_def Let_def)

lemma grocery_records:
  "records ''Date,Description,Amount\<newline>2024-01-05,Grocery Store,-54.32\<newline>2024-01-06,Payroll Deposit,1500.00'' =
    [(1, [''Date'', ''Description'', ''Amount'']),
     (2, [''2024-01-05'', ''Grocery Store'', ''-54.32'']),
     (3, [''2024-01-06'', ''Payroll Deposit'', ''1500.00''])]"
  by (simp add: records_def split_on_def upt_conv_Cons)

lemma grocery_frame:
  "read_csv ''Date,Description,Amount\<newline>2024-01-05,Grocery Store,-54.32\<newline>2024-01-06,Payroll Deposit,1500.00'' =
     Parsed \<lparr>df_columns = [''Date'', ''Description'', ''Amount''],
       df_rows = [[StrV ''2024-01-05'', StrV ''Grocery Store'', FloatV True ''54'' ''32''],
                  [StrV ''2024-01-06'', StrV ''Payroll Deposit'', FloatV False ''1500'' ''0'']]\<rparr>"
  unfolding read_csv_def
  by (simp add: plain_char_def spaces_only_def split_on_def grocery_records frame_of_def
        column_kind_def classify_examples classify_amounts upt_conv_Cons)

text \<open>
  C7. The text with the header \<open>Date,Description,Amount\<close> and the rows
  \<open>2024-01-05,Grocery Store,-54.32\<close> and \<open>2024-01-06,Payroll Deposit,1500.00\<close> is read as
  exactly two rows in that order; the amount of the first is the negative number -54.32
  and the amount of the second the positive number 1500.
\<close>

theorem grocery_payroll_rows:
  "\<exists>r1 r2.
     read_csv ''Date,Description,Amount\<newline>2024-01-05,Grocery Store,-54.32\<newline>2024-01-06,Payroll Deposit,1500.00''
       = Parsed \<lparr>df_columns = [''Date'', ''Description'', ''Amount''], df_rows = [r1, r2]\<rparr>
     \<and> take 2 r1 = [StrV ''2024-01-05'', StrV ''Grocery Store'']
     \<and> take 2 r2 = [StrV ''2024-01-06'', StrV ''Payroll Deposit'']
     \<and> number_value (r1 ! 2) = Some (- 54.32) \<and> - 54.32 < (0::real)
     \<and> number_value (r2 ! 2) = Some 1500 \<and> (0::real) < 1500"
  by (simp add: grocery_frame digits_val_def digit_val_def)

theorem grocery_payroll_rows_witness:
  "\<exists>df. read_csv ''Date,Description,Amount\<newline>2024-01-05,Grocery Store,-54.32\<newline>2024-01-06,Payroll Deposit,1500.00''
          = Parsed df
        \<and> length (df_rows df) = 2
        \<and> map number_value (map (\<lambda>r. r ! 2) (df_rows df)) = [Some (- 54.32), Some 1500]"
proof -
  from grocery_payroll_rows obtain r1 r2 where
    "read_csv ''Date,Description,Amount\<newline>2024-01-05,Grocery Store,-54.32\<newline>2024-01-06,Payroll Deposit,1500.00''
       = Parsed \<lparr>df_columns = [''Date'', ''Description'', ''Amount''], df_rows = [r1, r2]\<rparr>"
    and "number_value (r1 ! 2) = Some (- 54.32)" and "number_value (r2 ! 2) = Some 1500"
    by blast
  then show ?thesis by simp
qed






subsection \<open>Text that is not a table\<close>








end
